theory Spec2Isabelle
  imports Main
begin

section \<open>Python values and the operations the handler applies to them\<close>

text \<open>
  The Lambda runtime hands \<open>lambda_handler\<close> the notification as the value
  \<open>json.loads\<close> built from its text, and boto3 answers with nested dicts and lists.
  The type \<open>json\<close> is that universe: \<open>None\<close>, booleans, integers, strings, lists and
  dicts with string keys. A dict is kept as the list of its members; a lookup takes the
  first member with the key. Fractional numbers do not occur in S3 or SNS notifications
  and are left out. A \<open>string\<close> is a Python \<open>str\<close> of code points below 256, one
  \<open>char\<close> each.
\<close>

datatype json =
    JNull
  | JBool bool
  | JInt int
  | JStr string
  | JArr "json list"
  | JObj "(string \<times> json) list"

text \<open>
  The exceptions that can leave the code: the four raised by Python's own operations on
  a value of the wrong shape, the plain \<open>Exception(message)\<close> of the handler, and
  whatever a boto3 client call raises (\<open>ServiceError\<close>, with its text).
\<close>

datatype py_error =
    KeyError
  | IndexError
  | TypeError
  | AttributeError
  | Exception string
  | ServiceError string

text \<open>Sequencing of two steps, the first of which may raise.\<close>

definition and_then :: "py_error + 'a \<Rightarrow> ('a \<Rightarrow> py_error + 'b) \<Rightarrow> py_error + 'b" where
  "and_then r f = (case r of Inl e \<Rightarrow> Inl e | Inr x \<Rightarrow> f x)"

text \<open>Truth value of an object in a condition (\<open>if x:\<close>).\<close>

fun truthy :: "json \<Rightarrow> bool" where
  "truthy JNull = False"
| "truthy (JBool b) = b"
| "truthy (JInt n) = (n \<noteq> 0)"
| "truthy (JStr s) = (s \<noteq> [])"
| "truthy (JArr xs) = (xs \<noteq> [])"
| "truthy (JObj kvs) = (kvs \<noteq> [])"

text \<open>\<open>d.get(k)\<close> on a dict \<open>d\<close>: the value, or \<open>None\<close>.\<close>

definition dict_get :: "(string \<times> json) list \<Rightarrow> string \<Rightarrow> json" where
  "dict_get kvs k = (case map_of kvs k of None \<Rightarrow> JNull | Some v \<Rightarrow> v)"

text \<open>
  \<open>x.get(k, default)\<close>: only a dict has the method; on anything else the attribute
  lookup raises \<open>AttributeError\<close>.
\<close>

fun py_get :: "json \<Rightarrow> string \<Rightarrow> json \<Rightarrow> py_error + json" where
  "py_get (JObj kvs) k d = Inr (case map_of kvs k of None \<Rightarrow> d | Some v \<Rightarrow> v)"
| "py_get _ k d = Inl AttributeError"

text \<open>
  \<open>x[k]\<close> with a string \<open>k\<close>: a dict raises \<open>KeyError\<close> on a missing key; a list or a
  string takes integer indices only, the other values are not subscriptable
  (\<open>TypeError\<close>).
\<close>

fun subscript_key :: "json \<Rightarrow> string \<Rightarrow> py_error + json" where
  "subscript_key (JObj kvs) k = (case map_of kvs k of None \<Rightarrow> Inl KeyError | Some v \<Rightarrow> Inr v)"
| "subscript_key _ k = Inl TypeError"

text \<open>
  \<open>x[i]\<close> with a non-negative integer \<open>i\<close>: a list or string raises \<open>IndexError\<close>
  out of range; a dict has string keys only, so the integer is a missing key.
\<close>

fun subscript_index :: "json \<Rightarrow> nat \<Rightarrow> py_error + json" where
  "subscript_index (JArr xs) i = (if i < length xs then Inr (xs ! i) else Inl IndexError)"
| "subscript_index (JStr s) i = (if i < length s then Inr (JStr [s ! i]) else Inl IndexError)"
| "subscript_index (JObj kvs) i = Inl KeyError"
| "subscript_index _ i = Inl TypeError"

text \<open>
  \<open>s.split(sep)\<close> of a \<open>str\<close> at a one-character separator: the pieces between the
  separators, empty pieces kept, never an empty list.
\<close>

fun split_on :: "char \<Rightarrow> string \<Rightarrow> string list" where
  "split_on c [] = [[]]"
| "split_on c (x # xs) =
     (if x = c then [] # split_on c xs
      else (case split_on c xs of [] \<Rightarrow> [[x]] | p # ps \<Rightarrow> (x # p) # ps))"

text \<open>\<open>x.split(sep)\<close>: only a \<open>str\<close> has the method.\<close>

fun py_split :: "json \<Rightarrow> char \<Rightarrow> py_error + string list" where
  "py_split (JStr s) c = Inr (split_on c s)"
| "py_split _ c = Inl AttributeError"

text \<open>\<open>xs[i]\<close> on a Python list of strings.\<close>

definition list_index :: "string list \<Rightarrow> nat \<Rightarrow> py_error + string" where
  "list_index xs i = (if i < length xs then Inr (xs ! i) else Inl IndexError)"

text \<open>
  Iterating a value in a \<open>for\<close> loop: a list gives its elements, a dict its keys, a
  string its characters; the rest are not iterable.
\<close>

fun py_iter :: "json \<Rightarrow> py_error + json list" where
  "py_iter (JArr xs) = Inr xs"
| "py_iter (JObj kvs) = Inr (map JStr (remdups (map fst kvs)))"
| "py_iter (JStr s) = Inr (map (\<lambda>c. JStr [c]) s)"
| "py_iter _ = Inl TypeError"

subsection \<open>Text of a value: \<open>repr\<close> and \<open>json.dumps\<close>\<close>

definition hex_digit :: "nat \<Rightarrow> char" where
  "hex_digit n = ''0123456789abcdef'' ! (n mod 16)"

definition hex2 :: "nat \<Rightarrow> string" where
  "hex2 n = [hex_digit (n div 16), hex_digit n]"

fun nat_digits :: "nat \<Rightarrow> string" where
  "nat_digits n =
     (if n < 10 then [hex_digit n] else nat_digits (n div 10) @ [hex_digit (n mod 10)])"

definition int_repr :: "int \<Rightarrow> string" where
  "int_repr i = (if i < 0 then CHR ''-'' # nat_digits (nat (- i)) else nat_digits (nat i))"

text \<open>
  One character inside \<open>repr\<close> of a \<open>str\<close> quoted with \<open>q\<close>: the quote and the backslash
  get a backslash, tab, newline and carriage return their letter, the other
  non-printable code points \<open>\xNN\<close>.
\<close>

definition repr_char :: "char \<Rightarrow> char \<Rightarrow> string" where
  "repr_char q c =
     (let n = (of_char c :: nat) in
      if c = q \<or> c = CHR 0x5C then [CHR 0x5C, c]
      else if c = CHR 0x09 then [CHR 0x5C, CHR ''t'']
      else if c = CHR 0x0A then [CHR 0x5C, CHR ''n'']
      else if c = CHR 0x0D then [CHR 0x5C, CHR ''r'']
      else if n < 32 \<or> n = 127 \<or> (128 \<le> n \<and> n \<le> 160) \<or> n = 173
        then [CHR 0x5C, CHR ''x''] @ hex2 n
      else [c])"

text \<open>
  \<open>repr\<close> of a \<open>str\<close>: single quotes, unless the text holds a single quote and no
  double quote.
\<close>

definition str_repr :: "string \<Rightarrow> string" where
  "str_repr s =
     (let q = (if CHR 0x27 \<in> set s \<and> CHR 0x22 \<notin> set s then CHR 0x22 else CHR 0x27)
      in [q] @ concat (map (repr_char q) s) @ [q])"

text \<open>\<open>', '.join(parts)\<close>.\<close>

fun join_comma :: "string list \<Rightarrow> string" where
  "join_comma [] = []"
| "join_comma [p] = p"
| "join_comma (p # ps) = p @ '', '' @ join_comma ps"

text \<open>\<open>str(x)\<close> of a dict or list, which is its \<open>repr\<close>: what \<open>f'{event}'\<close> inserts.\<close>

fun py_repr :: "json \<Rightarrow> string" where
  "py_repr JNull = ''None''"
| "py_repr (JBool b) = (if b then ''True'' else ''False'')"
| "py_repr (JInt i) = int_repr i"
| "py_repr (JStr s) = str_repr s"
| "py_repr (JArr xs) = ''['' @ join_comma (map py_repr xs) @ '']''"
| "py_repr (JObj kvs) =
     ''{'' @ join_comma (map (\<lambda>kv. str_repr (fst kv) @ '': '' @ py_repr (snd kv)) kvs) @ ''}''"

text \<open>
  One character inside the string \<open>json.dumps\<close> writes (\<open>ensure_ascii\<close> is on): the
  double quote, the backslash and the five short escapes, the printable ASCII
  characters as they are, every other code point as \<open>\u00NN\<close>.
\<close>

definition json_escape_char :: "char \<Rightarrow> string" where
  "json_escape_char c =
     (let n = (of_char c :: nat) in
      if c = CHR 0x22 then [CHR 0x5C, CHR 0x22]
      else if c = CHR 0x5C then [CHR 0x5C, CHR 0x5C]
      else if c = CHR 0x0A then [CHR 0x5C, CHR ''n'']
      else if c = CHR 0x0D then [CHR 0x5C, CHR ''r'']
      else if c = CHR 0x09 then [CHR 0x5C, CHR ''t'']
      else if c = CHR 0x08 then [CHR 0x5C, CHR ''b'']
      else if c = CHR 0x0C then [CHR 0x5C, CHR ''f'']
      else if 32 \<le> n \<and> n \<le> 126 then [c]
      else [CHR 0x5C, CHR ''u'', CHR ''0'', CHR ''0''] @ hex2 n)"

text \<open>\<open>json.dumps(s)\<close> of a \<open>str\<close>.\<close>

definition json_dumps_str :: "string \<Rightarrow> string" where
  "json_dumps_str s = [CHR 0x22] @ concat (map json_escape_char s) @ [CHR 0x22]"

section \<open>The program\<close>

subsection \<open>External collaborators\<close>

text \<open>
  What the code reaches outside itself, as one record:
  \<^item> \<open>environ\<close>: the process environment (\<open>os.environ\<close>);
  \<^item> \<open>ssm_get_parameters_by_path region path recursive with_decryption\<close>: the outcome of
    building the Parameter Store client for the region and of its one call
    \<open>get_parameters_by_path\<close>, the response or the exception raised on the way;
  \<^item> \<open>ecs_run_task region kwargs\<close>: the outcome of \<open>run_task(**kwargs)\<close> on the ECS
    client of the region, the task description or the exception;
  \<^item> \<open>dumps_default_str\<close>: the text \<open>json.dumps(response, default=str)\<close> writes for a
    task description.
  Building the ECS client (\<open>boto3.client('ecs', ...)\<close>) makes no call and is taken to
  succeed. Logging and printing are not modelled.
\<close>

record run_task_kwargs =
  cluster :: json
  launchType :: json
  networkConfiguration :: json
  taskDefinition :: json
  count :: json
  startedBy :: json
  overrides :: json

record 'r world =
  environ :: "string \<rightharpoonup> string"
  ssm_get_parameters_by_path :: "string \<Rightarrow> string \<Rightarrow> bool \<Rightarrow> bool \<Rightarrow> py_error + json"
  ecs_run_task :: "string \<Rightarrow> run_task_kwargs \<Rightarrow> py_error + 'r"
  dumps_default_str :: "'r \<Rightarrow> string"

text \<open>The response variable of the handler: a message, or what \<open>run_task\<close> returned.\<close>

datatype 'r response = Text string | Launched 'r

definition START_STATUS :: string where
  "START_STATUS = ''START''"

text \<open>\<open>f'{x}'\<close> of \<open>environ.get(name)\<close>: the value, or the text \<open>None\<close>.\<close>

definition format_env :: "string option \<Rightarrow> string" where
  "format_env v = (case v of None \<Rightarrow> ''None'' | Some s \<Rightarrow> s)"

definition full_config_path :: "(string \<rightharpoonup> string) \<Rightarrow> string" where
  "full_config_path env =
     ''/'' @ format_env (env ''ENV'') @ ''/'' @ format_env (env ''APP_CONFIG_PATH'')"

text \<open>\<open>environ.get('AWS_DEFAULT_REGION', 'us-east-1')\<close>.\<close>

definition region_name :: "(string \<rightharpoonup> string) \<Rightarrow> string" where
  "region_name env =
     (case env ''AWS_DEFAULT_REGION'' of None \<Rightarrow> ''us-east-1'' | Some r \<Rightarrow> r)"

subsection \<open>\<open>get_config\<close>\<close>

text \<open>
  The body of the \<open>for\<close> loop, on one entry of the response: the last piece of the
  name split at \<open>/\<close> becomes the key under which the entry's value is stored.
  \<open>split\<close> never returns an empty list, so \<open>len(param_path_array) - 1\<close> is not
  negative.
\<close>

definition store_param :: "json \<Rightarrow> (string \<rightharpoonup> json) \<Rightarrow> py_error + (string \<rightharpoonup> json)" where
  "store_param param configuration =
     and_then (py_get param ''Name'' JNull) (\<lambda>name.
     and_then (py_split name (CHR ''/'')) (\<lambda>param_path_array.
       let section_position = length param_path_array - 1 in
       and_then (list_index param_path_array section_position) (\<lambda>section_name.
       and_then (py_get param ''Value'' JNull) (\<lambda>v.
         Inr (configuration(section_name \<mapsto> v))))))"

text \<open>
  The loop. An exception in the body ends it; the dict keeps what the earlier rounds
  stored. The result is the exception, if any, and the dict.
\<close>

fun store_params :: "json list \<Rightarrow> (string \<rightharpoonup> json) \<Rightarrow> py_error option \<times> (string \<rightharpoonup> json)" where
  "store_params [] configuration = (None, configuration)"
| "store_params (param # rest) configuration =
     (case store_param param configuration of
        Inl e \<Rightarrow> (Some e, configuration)
      | Inr configuration' \<Rightarrow> store_params rest configuration')"

text \<open>
  \<open>get_config\<close>: every exception of the \<open>try\<close> block is caught, and \<open>finally\<close> returns
  the dict as it stands.
\<close>

definition get_config :: "'r world \<Rightarrow> string \<Rightarrow> (string \<rightharpoonup> json)" where
  "get_config w ssm_parameter_path =
     (let configuration = Map.empty in
      case and_then
             (ssm_get_parameters_by_path w (region_name (environ w)) ssm_parameter_path False True)
             (\<lambda>param_details.
                and_then (py_get param_details ''Parameters'' (JArr [])) py_iter) of
        Inl e \<Rightarrow> configuration
      | Inr params \<Rightarrow> snd (store_params params configuration))"

subsection \<open>\<open>run_task\<close>\<close>

text \<open>\<open>config.get(k)\<close> on the configuration dict.\<close>

definition config_get :: "(string \<rightharpoonup> json) \<Rightarrow> string \<Rightarrow> json" where
  "config_get config k = (case config k of None \<Rightarrow> JNull | Some v \<Rightarrow> v)"

text \<open>
  \<open>run_task\<close> makes one call on the client. The result is the list of the calls made
  (their keyword arguments) and what the client returned or raised.
\<close>

definition run_task ::
  "(run_task_kwargs \<Rightarrow> py_error + 'r) \<Rightarrow> (string \<rightharpoonup> json) \<Rightarrow> json \<Rightarrow> json \<Rightarrow>
     run_task_kwargs list \<times> (py_error + 'r)" where
  "run_task ecs_client config task_definition environment =
     (let kwargs =
        \<lparr> cluster = config_get config ''ECS_CLUSTER'',
          launchType = JStr ''FARGATE'',
          networkConfiguration =
            JObj [(''awsvpcConfiguration'',
              JObj [(''subnets'', JArr [config_get config ''ECS_SUBNET'']),
                    (''securityGroups'', JArr []),
                    (''assignPublicIp'', JStr ''DISABLED'')])],
          taskDefinition = task_definition,
          count = JInt 1,
          startedBy = JStr ''lambda/digital_ingest_trigger'',
          overrides =
            JObj [(''containerOverrides'',
              JArr [JObj [(''name'', task_definition),
                          (''environment'', environment)]])] \<rparr>
      in ([kwargs], ecs_client kwargs))"

subsection \<open>\<open>lambda_handler\<close>\<close>

text \<open>\<open>event['Records'][0]\<close>.\<close>

definition first_record :: "json \<Rightarrow> py_error + json" where
  "first_record event =
     and_then (subscript_key event ''Records'') (\<lambda>records. subscript_index records 0)"

text \<open>\<open>response = run_task(...)\<close>: the calls, and the task description as the response.\<close>

definition as_response ::
  "run_task_kwargs list \<times> (py_error + 'r) \<Rightarrow> run_task_kwargs list \<times> (py_error + 'r response)" where
  "as_response out = (fst out, and_then (snd out) (\<lambda>r. Inr (Launched r)))"

text \<open>\<open>attributes.get(k, {}).get('Value')\<close>.\<close>

definition attribute_value :: "json \<Rightarrow> string \<Rightarrow> py_error + json" where
  "attribute_value attributes k =
     and_then (py_get attributes k (JObj [])) (\<lambda>a. py_get a ''Value'' JNull)"

text \<open>The branch of the handler for a record with a true \<open>s3\<close> entry (lines 85 to 107).\<close>

definition handle_s3_event ::
  "(run_task_kwargs \<Rightarrow> py_error + 'r) \<Rightarrow> (string \<rightharpoonup> json) \<Rightarrow> json \<Rightarrow>
     run_task_kwargs list \<times> (py_error + 'r response)" where
  "handle_s3_event ecs_client config event =
     (case and_then (first_record event) (\<lambda>r. subscript_key r ''eventName'') of
        Inl e \<Rightarrow> ([], Inl e)
      | Inr event_type \<Rightarrow>
          let response = Text (''Nothing to do for S3 event: '' @ py_repr event) in
          if event_type \<in> set [JStr ''ObjectCreated:Put'',
                                JStr ''ObjectCreated:CompleteMultipartUpload'']
          then
            (case and_then (first_record event) (\<lambda>r.
                  and_then (subscript_key r ''s3'') (\<lambda>s3.
                  and_then (subscript_key s3 ''object'') (\<lambda>obj.
                  and_then (subscript_key obj ''key'') (\<lambda>k.
                  and_then (py_split k (CHR ''.'')) (\<lambda>parts. list_index parts 0))))) of
               Inl e \<Rightarrow> ([], Inl e)
             | Inr package_id \<Rightarrow>
                 let environment =
                   JArr [JObj [(''name'', JStr ''PACKAGE_ID''), (''value'', JStr package_id)]]
                 in as_response (run_task ecs_client config (JStr ''ursa_major'') environment))
          else ([], Inr response))"

text \<open>The branch for a record with a true \<open>Sns\<close> entry (lines 110 to 131).\<close>

definition handle_sns_event ::
  "(run_task_kwargs \<Rightarrow> py_error + 'r) \<Rightarrow> (string \<rightharpoonup> json) \<Rightarrow> json \<Rightarrow>
     run_task_kwargs list \<times> (py_error + 'r response)" where
  "handle_sns_event ecs_client config event =
     (case and_then (first_record event) (\<lambda>r.
           and_then (subscript_key r ''Sns'') (\<lambda>sns. subscript_key sns ''MessageAttributes'')) of
        Inl e \<Rightarrow> ([], Inl e)
      | Inr attributes \<Rightarrow>
          let response = Text (''Nothing to do for SNS event: '' @ py_repr event) in
          (case attribute_value attributes ''package_id'' of
             Inl e \<Rightarrow> ([], Inl e)
           | Inr package_id \<Rightarrow>
               let environment =
                 JArr [JObj [(''name'', JStr ''PACKAGE_ID''), (''value'', package_id)]]
               in
               (case attribute_value attributes ''requested_status'' of
                  Inl e \<Rightarrow> ([], Inl e)
                | Inr status \<Rightarrow>
                    if status = JStr START_STATUS
                    then
                      (case and_then (subscript_key attributes ''service'')
                                     (\<lambda>s. subscript_key s ''Value'') of
                         Inl e \<Rightarrow> ([], Inl e)
                       | Inr service \<Rightarrow>
                           as_response (run_task ecs_client config service environment))
                    else ([], Inr response))))"

text \<open>\<open>json.dumps(response, default=str)\<close>.\<close>

definition json_dumps :: "('r \<Rightarrow> string) \<Rightarrow> 'r response \<Rightarrow> string" where
  "json_dumps dumps response =
     (case response of Text s \<Rightarrow> json_dumps_str s | Launched r \<Rightarrow> dumps r)"

text \<open>
  The handler. Its result is the list of \<open>run_task\<close> calls it made on the ECS client and
  either the text it returns or the exception it raises.
\<close>

definition lambda_handler :: "'r world \<Rightarrow> json \<Rightarrow> run_task_kwargs list \<times> (py_error + string)" where
  "lambda_handler w event =
     (let config = get_config w (full_config_path (environ w));
          ecs_client = ecs_run_task w (region_name (environ w));
          out =
            (case and_then (first_record event) (\<lambda>r. py_get r ''s3'' JNull) of
               Inl e \<Rightarrow> ([], Inl e)
             | Inr s3 \<Rightarrow>
                 if truthy s3 then handle_s3_event ecs_client config event
                 else
                   (case and_then (first_record event) (\<lambda>r. py_get r ''Sns'' JNull) of
                      Inl e \<Rightarrow> ([], Inl e)
                    | Inr sns \<Rightarrow>
                        if truthy sns then handle_sns_event ecs_client config event
                        else ([], Inl (Exception ''Unsure how to parse message''))))
      in (fst out,
          and_then (snd out) (\<lambda>response. Inr (json_dumps (dumps_default_str w) response))))"

section \<open>Example inputs\<close>

text \<open>
  An entry of a \<open>get_parameters_by_path\<close> response as the store writes it: the name,
  the type, the value and the version, in that order.
\<close>

definition store_entry :: "string \<Rightarrow> string \<Rightarrow> json \<Rightarrow> json" where
  "store_entry n t v =
     JObj [(''Name'', JStr n), (''Type'', JStr t), (''Value'', v), (''Version'', JInt 1)]"

text \<open>
  A deployment as the tests set it up: the configuration lives under
  \<open>/dev/digital_ingest_trigger\<close>, the store holds the cluster and the subnet, and the
  ECS client answers every call with the request it was given.
\<close>

definition example_world :: "run_task_kwargs world" where
  "example_world =
     \<lparr> environ = [''ENV'' \<mapsto> ''dev'', ''APP_CONFIG_PATH'' \<mapsto> ''digital_ingest_trigger''],
       ssm_get_parameters_by_path = (\<lambda>region path recursive with_decryption.
         if path = ''/dev/digital_ingest_trigger''
         then Inr (JObj [(''Parameters'',
                JArr [store_entry ''/dev/digital_ingest_trigger/ECS_CLUSTER'' ''String'' (JStr ''default''),
                      store_entry ''/dev/digital_ingest_trigger/ECS_SUBNET'' ''String'' (JStr ''subnet'')])])
         else Inl (ServiceError ''ParameterNotFound'')),
       ecs_run_task = (\<lambda>region kwargs. Inr kwargs),
       dumps_default_str = (\<lambda>kwargs. ''{}'') \<rparr>"

text \<open>The same deployment with the Parameter Store out of reach.\<close>

definition offline_world :: "run_task_kwargs world" where
  "offline_world =
     example_world \<lparr> ssm_get_parameters_by_path :=
       (\<lambda>region path recursive with_decryption. Inl (ServiceError ''EndpointConnectionError'')) \<rparr>"

text \<open>An envelope with the given records.\<close>

definition envelope :: "json list \<Rightarrow> json" where
  "envelope records = JObj [(''Records'', JArr records)]"

text \<open>An S3 notification record for an event name and an object key.\<close>

definition s3_record :: "string \<Rightarrow> string \<Rightarrow> json" where
  "s3_record event_name object_key =
     JObj [(''eventSource'', JStr ''aws:s3''),
           (''eventName'', JStr event_name),
           (''s3'', JObj [(''bucket'', JObj [(''name'', JStr ''ingest'')]),
                         (''object'', JObj [(''key'', JStr object_key)])])]"

text \<open>A message attribute of an SNS notification.\<close>

definition string_attribute :: "string \<Rightarrow> json" where
  "string_attribute v = JObj [(''Type'', JStr ''String''), (''Value'', JStr v)]"

text \<open>An SNS notification record with the given message attributes.\<close>

definition sns_record :: "(string \<times> json) list \<Rightarrow> json" where
  "sns_record attributes =
     JObj [(''EventSource'', JStr ''aws:sns''),
           (''Sns'', JObj [(''Subject'', JNull), (''MessageAttributes'', JObj attributes)])]"

text \<open>The test event the Lambda console offers: a dict without \<open>Records\<close>.\<close>

definition console_test_event :: json where
  "console_test_event =
     JObj [(''key1'', JStr ''value1''), (''key2'', JStr ''value2''), (''key3'', JStr ''value3'')]"

text \<open>
  The store of the configuration test: two secure strings, \<open>foo = bar\<close> and
  \<open>baz = buzz\<close>, under whatever path is asked for.
\<close>

definition test_config_world :: "run_task_kwargs world" where
  "test_config_world =
     example_world \<lparr> ssm_get_parameters_by_path :=
       (\<lambda>region path recursive with_decryption.
          Inr (JObj [(''Parameters'',
                 JArr [store_entry (path @ ''/foo'') ''SecureString'' (JStr ''bar''),
                       store_entry (path @ ''/baz'') ''SecureString'' (JStr ''buzz'')]),
                (''ResponseMetadata'', JObj [(''HTTPStatusCode'', JInt 200)])])) \<rparr>"

text \<open>A configuration as the handler tests patch it in.\<close>

definition test_config :: "string \<rightharpoonup> json" where
  "test_config =
     [''AWS_REGION'' \<mapsto> JStr ''us-east-1'',
      ''ECS_CLUSTER'' \<mapsto> JStr ''default'',
      ''ECS_SUBNET'' \<mapsto> JStr ''subnet'']"

text \<open>
  A record with both an \<open>s3\<close> entry (the argument) and an \<open>Sns\<close> entry that asks to start
  \<open>fornax\<close>.
\<close>

definition s3_and_sns_record :: "json \<Rightarrow> json" where
  "s3_and_sns_record s3 =
     JObj [(''eventName'', JStr ''ObjectCreated:Put''),
           (''s3'', s3),
           (''Sns'', JObj [(''MessageAttributes'',
              JObj [(''requested_status'', string_attribute ''START''),
                    (''service'', string_attribute ''fornax'')])])]"

section \<open>Auxiliary facts\<close>

subsection \<open>Sequencing\<close>

lemma and_then_Inr: "and_then (Inr x) f = f x"
  by (simp add: and_then_def)

lemma and_then_Inl: "and_then (Inl e) f = Inl e"
  by (simp add: and_then_def)

subsection \<open>Splitting a string\<close>

lemma split_on_not_Nil: "split_on c s \<noteq> []"
  by (induction s) (auto split: list.splits)

lemma hd_split_on: "hd (split_on c s) = takeWhile (\<lambda>x. x \<noteq> c) s"
  by (induction s) (auto simp: split_on_not_Nil split: list.splits)

lemma split_on_no_sep: "c \<notin> set s \<Longrightarrow> split_on c s = [s]"
  by (induction s) (auto split: list.splits)

lemma split_on_tl: "c \<in> set s \<Longrightarrow> tl (split_on c s) \<noteq> []"
  by (induction s) (auto simp: split_on_not_Nil split: list.splits)

lemma last_split_on_append: "last (split_on c (a @ c # b)) = last (split_on c b)"
proof (induction a)
  case Nil
  then show ?case by (simp add: split_on_not_Nil)
next
  case (Cons x a)
  have "tl (split_on c (a @ c # b)) \<noteq> []"
    by (rule split_on_tl) simp
  with Cons show ?case
    by (auto simp: split_on_not_Nil split: list.splits)
qed

lemma takeWhile_stop:
  "\<forall>x\<in>set ys. P x \<Longrightarrow> \<not> P c \<Longrightarrow> takeWhile P (ys @ c # zs) = ys"
  by (induction ys) auto

lemma last_split_on: "last (split_on c s) = rev (takeWhile (\<lambda>x. x \<noteq> c) (rev s))"
proof (cases "c \<in> set s")
  case False
  then have tw: "takeWhile (\<lambda>x. x \<noteq> c) (rev s) = rev s"
    by auto
  show ?thesis by (simp add: split_on_no_sep [OF False] tw)
next
  case True
  then obtain a b where s: "s = a @ c # b" and b: "c \<notin> set b"
    by (meson split_list_last)
  have "takeWhile (\<lambda>x. x \<noteq> c) (rev b @ c # rev a) = rev b"
    using b by (intro takeWhile_stop) auto
  with s b show ?thesis
    by (simp add: last_split_on_append split_on_no_sep)
qed

lemma list_index_last: "list_index (split_on c s) (length (split_on c s) - 1) = Inr (last (split_on c s))"
  using split_on_not_Nil[of c s]
  by (simp add: list_index_def last_conv_nth)

lemma list_index_first: "list_index (split_on c s) 0 = Inr (takeWhile (\<lambda>x. x \<noteq> c) s)"
  using split_on_not_Nil[of c s] hd_split_on[of c s]
  by (simp add: list_index_def hd_conv_nth)

subsection \<open>The branches of the handler\<close>

lemma and_then_eq_Inr: "and_then r f = Inr y \<longleftrightarrow> (\<exists>x. r = Inr x \<and> f x = Inr y)"
  by (cases r) (simp_all add: and_then_def)

lemma py_get_truthy_subscript:
  "py_get r k JNull = Inr v \<Longrightarrow> truthy v \<Longrightarrow> subscript_key r k = Inr v"
  by (cases r) (auto split: option.splits)

lemma escape_s3_prefix:
  "concat (map json_escape_char ''Nothing to do for S3 event: '') = ''Nothing to do for S3 event: ''"
  by (simp add: json_escape_char_def)

lemma escape_sns_prefix:
  "concat (map json_escape_char ''Nothing to do for SNS event: '') = ''Nothing to do for SNS event: ''"
  by (simp add: json_escape_char_def)

lemma lambda_handler_s3:
  assumes "first_record event = Inr r" and "py_get r ''s3'' JNull = Inr s3" and "truthy s3"
  shows "lambda_handler w event =
    (fst (handle_s3_event (ecs_run_task w (region_name (environ w)))
            (get_config w (full_config_path (environ w))) event),
     and_then (snd (handle_s3_event (ecs_run_task w (region_name (environ w)))
            (get_config w (full_config_path (environ w))) event))
       (\<lambda>response. Inr (json_dumps (dumps_default_str w) response)))"
  using assms(3) by (simp add: lambda_handler_def assms(1,2) and_then_Inr Let_def)

lemma handle_s3_event_created:
  assumes "first_record event = Inr r"
    and "subscript_key r ''s3'' = Inr s3"
    and "subscript_key r ''eventName'' = Inr (JStr event_name)"
    and "event_name \<in> {''ObjectCreated:Put'', ''ObjectCreated:CompleteMultipartUpload''}"
    and "and_then (subscript_key s3 ''object'') (\<lambda>obj. subscript_key obj ''key'') = Inr (JStr object_key)"
  shows "handle_s3_event ecs_client config event =
    as_response (run_task ecs_client config (JStr ''ursa_major'')
      (JArr [JObj [(''name'', JStr ''PACKAGE_ID''),
                   (''value'', JStr (takeWhile (\<lambda>c. c \<noteq> CHR ''.'') object_key))]]))"
proof -
  from assms(5) obtain obj where "subscript_key s3 ''object'' = Inr obj"
    and "subscript_key obj ''key'' = Inr (JStr object_key)"
    by (auto simp: and_then_eq_Inr)
  then have pid: "and_then (subscript_key r ''s3'') (\<lambda>s3.
                  and_then (subscript_key s3 ''object'') (\<lambda>obj.
                  and_then (subscript_key obj ''key'') (\<lambda>k.
                  and_then (py_split k (CHR ''.'')) (\<lambda>parts. list_index parts 0))))
             = Inr (takeWhile (\<lambda>c. c \<noteq> CHR ''.'') object_key)"
    by (simp add: assms(2) and_then_Inr list_index_first)
  show ?thesis
    using assms(4) by (auto simp: handle_s3_event_def assms(1,3) pid and_then_Inr Let_def)
qed

lemma as_response_run_task:
  "as_response (run_task ecs_client config task_definition environment) =
     ([hd (fst (run_task ecs_client config task_definition environment))],
      and_then (ecs_client (hd (fst (run_task ecs_client config task_definition environment))))
        (\<lambda>r. Inr (Launched r)))"
  by (simp add: as_response_def run_task_def Let_def)

lemma and_then_assoc: "and_then (and_then r f) g = and_then r (\<lambda>x. and_then (f x) g)"
  by (cases r) (simp_all add: and_then_def)

lemma lambda_handler_sns:
  assumes "first_record event = Inr r" and "py_get r ''s3'' JNull = Inr s3" and "\<not> truthy s3"
    and "py_get r ''Sns'' JNull = Inr sns" and "truthy sns"
  shows "lambda_handler w event =
    (fst (handle_sns_event (ecs_run_task w (region_name (environ w)))
            (get_config w (full_config_path (environ w))) event),
     and_then (snd (handle_sns_event (ecs_run_task w (region_name (environ w)))
            (get_config w (full_config_path (environ w))) event))
       (\<lambda>response. Inr (json_dumps (dumps_default_str w) response)))"
  using assms(3,5) by (simp add: lambda_handler_def assms(1,2,4) and_then_Inr Let_def)

lemma handle_sns_event_start:
  assumes "first_record event = Inr r"
    and "subscript_key r ''Sns'' = Inr sns"
    and "subscript_key sns ''MessageAttributes'' = Inr attributes"
    and "attribute_value attributes ''package_id'' = Inr package_id"
    and "attribute_value attributes ''requested_status'' = Inr (JStr ''START'')"
    and "and_then (subscript_key attributes ''service'') (\<lambda>s. subscript_key s ''Value'') = Inr service"
  shows "handle_sns_event ecs_client config event =
    as_response (run_task ecs_client config service
      (JArr [JObj [(''name'', JStr ''PACKAGE_ID''), (''value'', package_id)]]))"
  by (simp add: handle_sns_event_def assms and_then_Inr Let_def START_STATUS_def)

lemma handle_sns_event_idle:
  assumes "first_record event = Inr r"
    and "subscript_key r ''Sns'' = Inr sns"
    and "subscript_key sns ''MessageAttributes'' = Inr attributes"
    and "attribute_value attributes ''package_id'' = Inr package_id"
    and "attribute_value attributes ''requested_status'' = Inr status"
    and "status \<noteq> JStr ''START''"
  shows "handle_sns_event ecs_client config event =
    ([], Inr (Text (''Nothing to do for SNS event: '' @ py_repr event)))"
  using assms(6)
  by (simp add: handle_sns_event_def assms(1-5) and_then_Inr Let_def START_STATUS_def)

lemma attribute_value_absent:
  "map_of attributes k = None \<Longrightarrow> attribute_value (JObj attributes) k = Inr JNull"
  by (simp add: attribute_value_def and_then_Inr)

lemma attribute_value_present:
  "map_of attributes k = Some (JObj a) \<Longrightarrow>
     attribute_value (JObj attributes) k = Inr (dict_get a ''Value'')"
  by (simp add: attribute_value_def and_then_Inr dict_get_def)

lemma py_get_dict: "py_get (JObj kvs) k JNull = Inr (dict_get kvs k)"
  by (simp add: dict_get_def)

lemma first_record_error:
  "first_record event = Inl e \<Longrightarrow> e \<in> {KeyError, IndexError, TypeError}"
  by (cases event)
     (auto simp: first_record_def and_then_def split: option.splits sum.splits if_splits
           elim!: subscript_index.elims)

lemma py_get_not_dict: "(\<forall>kvs. r \<noteq> JObj kvs) \<Longrightarrow> py_get r k d = Inl AttributeError"
  by (cases r) simp_all

subsection \<open>The loop of \<open>get_config\<close>\<close>

lemma store_param_entry:
  "map_of members ''Name'' = Some (JStr n) \<Longrightarrow>
   store_param (JObj members) configuration =
     Inr (configuration(last (split_on (CHR ''/'') n) \<mapsto> dict_get members ''Value''))"
  by (simp add: store_param_def and_then_Inr dict_get_def
      list_index_last [unfolded One_nat_def] Let_def)

lemma store_params_entries:
  assumes "\<forall>(n, v, members) \<in> set entries.
      map_of members ''Name'' = Some (JStr n) \<and> dict_get members ''Value'' = v"
  shows "store_params (map (\<lambda>(n, v, members). JObj members) entries) configuration =
     (None, configuration ++
        map_of (rev (map (\<lambda>(n, v, members). (last (split_on (CHR ''/'') n), v)) entries)))"
  using assms
proof (induction entries arbitrary: configuration)
  case Nil
  then show ?case by simp
next
  case (Cons e entries)
  obtain n v members where e: "e = (n, v, members)" by (cases e)
  let ?k = "last (split_on (CHR ''/'') n)"
  let ?m = "map_of (rev (map (\<lambda>(n, v, members). (last (split_on (CHR ''/'') n), v)) entries))"
  from Cons.prems have name: "map_of members ''Name'' = Some (JStr n)"
    and val: "dict_get members ''Value'' = v"
    and rest: "\<forall>(n, v, members) \<in> set entries.
      map_of members ''Name'' = Some (JStr n) \<and> dict_get members ''Value'' = v"
    by (simp_all add: e)
  have m: "configuration(?k \<mapsto> v) ++ ?m = configuration ++ ([?k \<mapsto> v] ++ ?m)"
    by (rule ext) (simp add: map_add_def split: option.splits)
  have "store_params (map (\<lambda>(n, v, members). JObj members) (e # entries)) configuration =
      store_params (map (\<lambda>(n, v, members). JObj members) entries) (configuration(?k \<mapsto> v))"
    by (simp add: e store_param_entry [OF name] val)
  also have "\<dots> = (None, configuration(?k \<mapsto> v) ++ ?m)"
    by (rule Cons.IH [OF rest])
  finally show ?case
    by (simp only: m) (simp add: e)
qed

lemma get_config_entries_eq:
  assumes "ssm_get_parameters_by_path w (region_name (environ w)) path False True =
      Inr param_details"
    and "py_get param_details ''Parameters'' (JArr []) =
      Inr (JArr (map (\<lambda>(n, v, members). JObj members) entries))"
    and "\<forall>(n, v, members) \<in> set entries.
      map_of members ''Name'' = Some (JStr n) \<and> dict_get members ''Value'' = v"
  shows "get_config w path =
     map_of (rev (map (\<lambda>(n, v, members). (last (split_on (CHR ''/'') n), v)) entries))"
  by (simp add: get_config_def assms(1,2) and_then_Inr store_params_entries [OF assms(3)] Let_def)

lemma last_split_on_suffix:
  "c \<notin> set s \<Longrightarrow> last (split_on c (pre @ c # s)) = s"
  by (simp add: last_split_on_append split_on_no_sep)

subsection \<open>Envelopes with the same first record\<close>

lemma handle_s3_event_same_record:
  assumes "first_record event1 = first_record event2"
  shows "handle_s3_event ecs_client config event1 = handle_s3_event ecs_client config event2
       \<or> (handle_s3_event ecs_client config event1 =
              ([], Inr (Text (''Nothing to do for S3 event: '' @ py_repr event1)))
          \<and> handle_s3_event ecs_client config event2 =
              ([], Inr (Text (''Nothing to do for S3 event: '' @ py_repr event2))))"
  unfolding handle_s3_event_def assms Let_def
  by (cases "and_then (first_record event2) (\<lambda>r. subscript_key r ''eventName'')") simp_all

lemma handle_sns_event_same_record:
  assumes "first_record event1 = first_record event2"
  shows "handle_sns_event ecs_client config event1 = handle_sns_event ecs_client config event2
       \<or> (handle_sns_event ecs_client config event1 =
              ([], Inr (Text (''Nothing to do for SNS event: '' @ py_repr event1)))
          \<and> handle_sns_event ecs_client config event2 =
              ([], Inr (Text (''Nothing to do for SNS event: '' @ py_repr event2))))"
  unfolding handle_sns_event_def assms Let_def
  by (simp split: sum.splits)

lemma lambda_handler_s3_other:
  assumes "first_record event = Inr r"
    and "py_get r ''s3'' JNull = Inr s3"
    and "truthy s3"
    and "subscript_key r ''eventName'' = Inr event_type"
    and "event_type \<notin> {JStr ''ObjectCreated:Put'', JStr ''ObjectCreated:CompleteMultipartUpload''}"
  shows "lambda_handler w event =
      ([], Inr (json_dumps_str (''Nothing to do for S3 event: '' @ py_repr event)))"
  using assms(3,5)
  by (simp add: lambda_handler_def handle_s3_event_def assms(1,2,4) and_then_Inr Let_def
      json_dumps_def)

lemma handle_s3_event_same_entries:
  assumes "first_record event1 = Inr r1" and "first_record event2 = Inr r2"
    and "subscript_key r1 ''eventName'' = subscript_key r2 ''eventName''"
    and "subscript_key r1 ''s3'' = subscript_key r2 ''s3''"
  shows "handle_s3_event ecs_client config event1 = handle_s3_event ecs_client config event2
       \<or> (handle_s3_event ecs_client config event1 =
              ([], Inr (Text (''Nothing to do for S3 event: '' @ py_repr event1)))
          \<and> handle_s3_event ecs_client config event2 =
              ([], Inr (Text (''Nothing to do for S3 event: '' @ py_repr event2))))"
  unfolding handle_s3_event_def Let_def
  by (cases "subscript_key r2 ''eventName''") (simp_all add: assms and_then_Inr and_then_Inl)

lemma store_params_stops_at_bad_entry:
  "map_of members ''Name'' = Some (JStr n) \<Longrightarrow>
   store_params (JObj members # JNull # rest) Map.empty =
     (Some AttributeError, [last (split_on (CHR ''/'') n) \<mapsto> dict_get members ''Value''])"
  by (simp add: store_param_entry) (simp add: store_param_def and_then_Inl)

section \<open>The claims\<close>

text \<open>
  Claim C1. When the first record of the envelope has a true \<open>s3\<close> entry, its
  \<open>eventName\<close> is \<open>ObjectCreated:Put\<close> or \<open>ObjectCreated:CompleteMultipartUpload\<close> and
  its object key is a string, the handler makes exactly one \<open>run_task\<close> call. The task
  definition is the literal \<open>ursa_major\<close>, and the one container override carries an
  environment with the single entry \<open>PACKAGE_ID\<close>, whose value is the object key up to
  its first dot (the whole key when it has none). The handler returns what the client
  returned, serialised, or raises what the client raised.
\<close>

theorem s3_object_created_launches_ursa_major:
  assumes "first_record event = Inr r"
    and "py_get r ''s3'' JNull = Inr s3"
    and "truthy s3"
    and "subscript_key r ''eventName'' = Inr (JStr event_name)"
    and "event_name \<in> {''ObjectCreated:Put'', ''ObjectCreated:CompleteMultipartUpload''}"
    and "and_then (subscript_key s3 ''object'') (\<lambda>obj. subscript_key obj ''key'') = Inr (JStr object_key)"
  shows "\<exists>kwargs. fst (lambda_handler w event) = [kwargs]
           \<and> taskDefinition kwargs = JStr ''ursa_major''
           \<and> overrides kwargs =
               JObj [(''containerOverrides'',
                 JArr [JObj [(''name'', JStr ''ursa_major''),
                             (''environment'',
                                JArr [JObj [(''name'', JStr ''PACKAGE_ID''),
                                            (''value'', JStr (takeWhile (\<lambda>c. c \<noteq> CHR ''.'') object_key))]])]])]
           \<and> snd (lambda_handler w event) =
               and_then (ecs_run_task w (region_name (environ w)) kwargs)
                 (\<lambda>task. Inr (dumps_default_str w task))"
proof -
  have s3: "subscript_key r ''s3'' = Inr s3"
    using assms(2,3) by (rule py_get_truthy_subscript)
  show ?thesis
    unfolding lambda_handler_s3 [OF assms(1,2,3)]
      handle_s3_event_created [OF assms(1) s3 assms(4,5,6)] as_response_run_task
    by (simp add: and_then_assoc and_then_Inr json_dumps_def run_task_def Let_def)
qed

theorem s3_object_created_witness:
  "first_record (envelope [s3_record ''ObjectCreated:Put'' ''abc123.tif'']) =
     Inr (s3_record ''ObjectCreated:Put'' ''abc123.tif'')
   \<and> py_get (s3_record ''ObjectCreated:Put'' ''abc123.tif'') ''s3'' JNull =
       Inr (JObj [(''bucket'', JObj [(''name'', JStr ''ingest'')]),
                  (''object'', JObj [(''key'', JStr ''abc123.tif'')])])
   \<and> truthy (JObj [(''bucket'', JObj [(''name'', JStr ''ingest'')]),
                  (''object'', JObj [(''key'', JStr ''abc123.tif'')])])
   \<and> subscript_key (s3_record ''ObjectCreated:Put'' ''abc123.tif'') ''eventName'' =
       Inr (JStr ''ObjectCreated:Put'')
   \<and> (\<exists>kwargs.
         fst (lambda_handler example_world (envelope [s3_record ''ObjectCreated:Put'' ''abc123.tif'']))
           = [kwargs]
       \<and> taskDefinition kwargs = JStr ''ursa_major''
       \<and> overrides kwargs =
           JObj [(''containerOverrides'',
             JArr [JObj [(''name'', JStr ''ursa_major''),
                         (''environment'',
                            JArr [JObj [(''name'', JStr ''PACKAGE_ID''),
                                        (''value'', JStr ''abc123'')]])]])])"
  using s3_object_created_launches_ursa_major
    [of "envelope [s3_record ''ObjectCreated:Put'' ''abc123.tif'']"
        "s3_record ''ObjectCreated:Put'' ''abc123.tif''"
        "JObj [(''bucket'', JObj [(''name'', JStr ''ingest'')]),
               (''object'', JObj [(''key'', JStr ''abc123.tif'')])]"
        "''ObjectCreated:Put''" "''abc123.tif''" example_world]
  by (simp add: first_record_def envelope_def s3_record_def and_then_def) blast

text \<open>
  Claim C3. When the Parameter Store call raises (building the client or
  \<open>get_parameters_by_path\<close> itself), \<open>get_config\<close> raises nothing and returns the empty
  dict, whatever the path.
\<close>

theorem get_config_store_failure:
  "ssm_get_parameters_by_path w (region_name (environ w)) path False True = Inl e
   \<Longrightarrow> get_config w path = Map.empty"
  by (simp add: get_config_def and_then_def)

theorem get_config_store_failure_witness:
  "ssm_get_parameters_by_path offline_world (region_name (environ offline_world))
      ''/dev/digital_ingest_trigger'' False True = Inl (ServiceError ''EndpointConnectionError'')
   \<and> get_config offline_world ''/dev/digital_ingest_trigger'' = Map.empty"
  using get_config_store_failure
    [of offline_world "''/dev/digital_ingest_trigger''" "ServiceError ''EndpointConnectionError''"]
  by (simp add: offline_world_def)

text \<open>
  Claim C5. When the first record of the envelope has a true \<open>s3\<close> entry and its
  \<open>eventName\<close> is anything but the two object-creation names, the handler makes no
  \<open>run_task\<close> call and returns the JSON string of the message
  \<open>Nothing to do for S3 event: \<close> followed by the envelope's text; the phrase
  \<open>Nothing to do for S3 event\<close> stands in the result.
\<close>

theorem s3_other_event_nothing_to_do:
  assumes "first_record event = Inr r"
    and "py_get r ''s3'' JNull = Inr s3"
    and "truthy s3"
    and "subscript_key r ''eventName'' = Inr event_type"
    and "event_type \<notin> {JStr ''ObjectCreated:Put'', JStr ''ObjectCreated:CompleteMultipartUpload''}"
  shows "fst (lambda_handler w event) = []
       \<and> snd (lambda_handler w event) =
           Inr (json_dumps_str (''Nothing to do for S3 event: '' @ py_repr event))
       \<and> (\<exists>before after. snd (lambda_handler w event) =
             Inr (before @ ''Nothing to do for S3 event'' @ after))"
proof -
  have out: "lambda_handler w event =
      ([], Inr (json_dumps_str (''Nothing to do for S3 event: '' @ py_repr event)))"
    using assms(3,5)
    by (simp add: lambda_handler_def handle_s3_event_def assms(1,2,4) and_then_Inr Let_def
        json_dumps_def)
  have "json_dumps_str (''Nothing to do for S3 event: '' @ py_repr event) =
      [CHR 0x22] @ ''Nothing to do for S3 event'' @
        ('': '' @ concat (map json_escape_char (py_repr event)) @ [CHR 0x22])"
    unfolding json_dumps_str_def map_append concat_append escape_s3_prefix by simp
  with out show ?thesis by (metis fst_conv snd_conv)
qed

theorem s3_other_event_witness:
  "first_record (envelope [s3_record ''ObjectRemoved:Delete'' ''abc123.tif'']) =
     Inr (s3_record ''ObjectRemoved:Delete'' ''abc123.tif'')
   \<and> py_get (s3_record ''ObjectRemoved:Delete'' ''abc123.tif'') ''s3'' JNull =
       Inr (JObj [(''bucket'', JObj [(''name'', JStr ''ingest'')]),
                  (''object'', JObj [(''key'', JStr ''abc123.tif'')])])
   \<and> truthy (JObj [(''bucket'', JObj [(''name'', JStr ''ingest'')]),
                  (''object'', JObj [(''key'', JStr ''abc123.tif'')])])
   \<and> subscript_key (s3_record ''ObjectRemoved:Delete'' ''abc123.tif'') ''eventName'' =
       Inr (JStr ''ObjectRemoved:Delete'')
   \<and> fst (lambda_handler example_world (envelope [s3_record ''ObjectRemoved:Delete'' ''abc123.tif''])) = []
   \<and> (\<exists>before after.
        snd (lambda_handler example_world (envelope [s3_record ''ObjectRemoved:Delete'' ''abc123.tif'']))
          = Inr (before @ ''Nothing to do for S3 event'' @ after))"
proof -
  let ?r = "s3_record ''ObjectRemoved:Delete'' ''abc123.tif''"
  let ?s3 = "JObj [(''bucket'', JObj [(''name'', JStr ''ingest'')]),
                   (''object'', JObj [(''key'', JStr ''abc123.tif'')])]"
  have h1: "first_record (envelope [?r]) = Inr ?r"
    by (simp add: first_record_def envelope_def and_then_def)
  have h2: "py_get ?r ''s3'' JNull = Inr ?s3"
    by (simp add: s3_record_def)
  have h3: "truthy ?s3" by simp
  have h4: "subscript_key ?r ''eventName'' = Inr (JStr ''ObjectRemoved:Delete'')"
    by (simp add: s3_record_def)
  have h5: "JStr ''ObjectRemoved:Delete'' \<notin>
      {JStr ''ObjectCreated:Put'', JStr ''ObjectCreated:CompleteMultipartUpload''}"
    by simp
  show ?thesis
    using h1 h2 h3 h4 s3_other_event_nothing_to_do [OF h1 h2 h3 h4 h5, of example_world]
    by blast
qed

text \<open>
  Claim C7. For every configuration, task definition and environment, \<open>run_task\<close> makes
  one call on the client and its result is the client's. The cluster of the call is the
  value the configuration holds under \<open>ECS_CLUSTER\<close>, and its only subnet the value
  under \<open>ECS_SUBNET\<close> (\<open>None\<close> for a key the configuration lacks, as \<open>config.get\<close>
  gives). The call has no security group, public IP assignment \<open>DISABLED\<close>, launch type
  \<open>FARGATE\<close>, count 1, \<open>startedBy\<close> the literal \<open>lambda/digital_ingest_trigger\<close>, and
  one container override, named as the task definition, with the given environment.
\<close>

theorem run_task_request:
  "\<exists>kwargs.
     fst (run_task ecs_client config task_definition environment) = [kwargs]
   \<and> snd (run_task ecs_client config task_definition environment) = ecs_client kwargs
   \<and> cluster kwargs = (case config ''ECS_CLUSTER'' of None \<Rightarrow> JNull | Some c \<Rightarrow> c)
   \<and> (\<forall>c. config ''ECS_CLUSTER'' = Some c \<longrightarrow> cluster kwargs = c)
   \<and> launchType kwargs = JStr ''FARGATE''
   \<and> networkConfiguration kwargs =
       JObj [(''awsvpcConfiguration'',
         JObj [(''subnets'', JArr [case config ''ECS_SUBNET'' of None \<Rightarrow> JNull | Some s \<Rightarrow> s]),
               (''securityGroups'', JArr []),
               (''assignPublicIp'', JStr ''DISABLED'')])]
   \<and> (\<forall>s. config ''ECS_SUBNET'' = Some s \<longrightarrow>
         and_then (subscript_key (networkConfiguration kwargs) ''awsvpcConfiguration'')
           (\<lambda>awsvpc. subscript_key awsvpc ''subnets'') = Inr (JArr [s]))
   \<and> taskDefinition kwargs = task_definition
   \<and> count kwargs = JInt 1
   \<and> startedBy kwargs = JStr ''lambda/digital_ingest_trigger''
   \<and> overrides kwargs =
       JObj [(''containerOverrides'',
         JArr [JObj [(''name'', task_definition), (''environment'', environment)]])]"
  by (simp add: run_task_def config_get_def and_then_Inr Let_def)

theorem run_task_request_witness:
  "\<exists>kwargs.
     fst (run_task (\<lambda>kwargs. Inr kwargs) test_config (JStr ''ursa_major'')
            (JArr [JObj [(''name'', JStr ''PACKAGE_ID''), (''value'', JStr ''abc123'')]])) = [kwargs]
   \<and> cluster kwargs = JStr ''default''
   \<and> and_then (subscript_key (networkConfiguration kwargs) ''awsvpcConfiguration'')
        (\<lambda>awsvpc. subscript_key awsvpc ''subnets'') = Inr (JArr [JStr ''subnet''])
   \<and> taskDefinition kwargs = JStr ''ursa_major''
   \<and> startedBy kwargs = JStr ''lambda/digital_ingest_trigger''"
proof -
  have c: "test_config ''ECS_CLUSTER'' = Some (JStr ''default'')"
    and n: "test_config ''ECS_SUBNET'' = Some (JStr ''subnet'')"
    by (simp_all add: test_config_def)
  from run_task_request [of "\<lambda>kwargs. Inr kwargs" test_config "JStr ''ursa_major''"
      "JArr [JObj [(''name'', JStr ''PACKAGE_ID''), (''value'', JStr ''abc123'')]]"]
  show ?thesis using c n by blast
qed

text \<open>
  Claim C2. When the first record of the envelope has no true \<open>s3\<close> entry and a true
  \<open>Sns\<close> entry whose message attributes hold \<open>requested_status\<close> with the value
  \<open>START\<close> and a \<open>service\<close> with a value, the handler makes exactly one \<open>run_task\<close>
  call. The task definition (and the name of the one container override) is the value
  of \<open>service\<close>, and the environment has the single entry \<open>PACKAGE_ID\<close>, whose value is
  the value of the \<open>package_id\<close> attribute, \<open>None\<close> when the attribute is absent.
\<close>

theorem sns_start_launches_service:
  assumes "first_record event = Inr r"
    and "py_get r ''s3'' JNull = Inr s3"
    and "\<not> truthy s3"
    and "py_get r ''Sns'' JNull = Inr sns"
    and "truthy sns"
    and "subscript_key sns ''MessageAttributes'' = Inr (JObj attributes)"
    and "attribute_value (JObj attributes) ''requested_status'' = Inr (JStr ''START'')"
    and "attribute_value (JObj attributes) ''package_id'' = Inr package_id"
    and "and_then (subscript_key (JObj attributes) ''service'') (\<lambda>s. subscript_key s ''Value'')
           = Inr service"
  shows "(\<exists>kwargs. fst (lambda_handler w event) = [kwargs]
           \<and> taskDefinition kwargs = service
           \<and> overrides kwargs =
               JObj [(''containerOverrides'',
                 JArr [JObj [(''name'', service),
                             (''environment'',
                                JArr [JObj [(''name'', JStr ''PACKAGE_ID''),
                                            (''value'', package_id)]])]])]
           \<and> snd (lambda_handler w event) =
               and_then (ecs_run_task w (region_name (environ w)) kwargs)
                 (\<lambda>task. Inr (dumps_default_str w task)))
       \<and> (map_of attributes ''package_id'' = None \<longrightarrow> package_id = JNull)
       \<and> (\<forall>a. map_of attributes ''package_id'' = Some (JObj a) \<longrightarrow> package_id = dict_get a ''Value'')"
proof -
  have sns: "subscript_key r ''Sns'' = Inr sns"
    using assms(4,5) by (rule py_get_truthy_subscript)
  have launch: "\<exists>kwargs. fst (lambda_handler w event) = [kwargs]
           \<and> taskDefinition kwargs = service
           \<and> overrides kwargs =
               JObj [(''containerOverrides'',
                 JArr [JObj [(''name'', service),
                             (''environment'',
                                JArr [JObj [(''name'', JStr ''PACKAGE_ID''),
                                            (''value'', package_id)]])]])]
           \<and> snd (lambda_handler w event) =
               and_then (ecs_run_task w (region_name (environ w)) kwargs)
                 (\<lambda>task. Inr (dumps_default_str w task))"
    unfolding lambda_handler_sns [OF assms(1,2,3,4,5)]
      handle_sns_event_start [OF assms(1) sns assms(6,8,7,9)] as_response_run_task
    by (simp add: and_then_assoc and_then_Inr json_dumps_def run_task_def Let_def)
  have absent: "map_of attributes ''package_id'' = None \<longrightarrow> package_id = JNull"
    using assms(8) by (auto simp: attribute_value_absent)
  have present: "\<forall>a. map_of attributes ''package_id'' = Some (JObj a) \<longrightarrow>
      package_id = dict_get a ''Value''"
    using assms(8) by (auto simp: attribute_value_present)
  from launch absent present show ?thesis by blast
qed

theorem sns_start_witness:
  "(\<exists>kwargs.
      fst (lambda_handler example_world
            (envelope [sns_record [(''requested_status'', string_attribute ''START''),
                                   (''service'', string_attribute ''fornax''),
                                   (''package_id'', string_attribute ''xyz'')]])) = [kwargs]
      \<and> taskDefinition kwargs = JStr ''fornax''
      \<and> overrides kwargs =
          JObj [(''containerOverrides'',
            JArr [JObj [(''name'', JStr ''fornax''),
                        (''environment'',
                           JArr [JObj [(''name'', JStr ''PACKAGE_ID''),
                                       (''value'', JStr ''xyz'')]])]])])
   \<and> (\<exists>kwargs.
      fst (lambda_handler example_world
            (envelope [sns_record [(''requested_status'', string_attribute ''START''),
                                   (''service'', string_attribute ''fornax'')]])) = [kwargs]
      \<and> taskDefinition kwargs = JStr ''fornax''
      \<and> overrides kwargs =
          JObj [(''containerOverrides'',
            JArr [JObj [(''name'', JStr ''fornax''),
                        (''environment'',
                           JArr [JObj [(''name'', JStr ''PACKAGE_ID''),
                                       (''value'', JNull)]])]])])"
proof -
  let ?with = "[(''requested_status'', string_attribute ''START''),
                (''service'', string_attribute ''fornax''),
                (''package_id'', string_attribute ''xyz'')]"
  let ?without = "[(''requested_status'', string_attribute ''START''),
                   (''service'', string_attribute ''fornax'')]"
  have h1: "first_record (envelope [sns_record a]) = Inr (sns_record a)" for a
    by (simp add: first_record_def envelope_def and_then_def)
  have h2: "py_get (sns_record a) ''s3'' JNull = Inr JNull" for a
    by (simp add: sns_record_def)
  have h3: "\<not> truthy JNull" by simp
  have h4: "py_get (sns_record a) ''Sns'' JNull =
      Inr (JObj [(''Subject'', JNull), (''MessageAttributes'', JObj a)])" for a
    by (simp add: sns_record_def)
  have h5: "truthy (JObj [(''Subject'', JNull), (''MessageAttributes'', JObj a)])" for a
    by simp
  have h6: "subscript_key (JObj [(''Subject'', JNull), (''MessageAttributes'', JObj a)])
      ''MessageAttributes'' = Inr (JObj a)" for a
    by simp
  have s1: "attribute_value (JObj ?with) ''requested_status'' = Inr (JStr ''START'')"
    and p1: "attribute_value (JObj ?with) ''package_id'' = Inr (JStr ''xyz'')"
    and v1: "and_then (subscript_key (JObj ?with) ''service'') (\<lambda>s. subscript_key s ''Value'')
               = Inr (JStr ''fornax'')"
    by (simp_all add: attribute_value_def string_attribute_def and_then_def)
  have s2: "attribute_value (JObj ?without) ''requested_status'' = Inr (JStr ''START'')"
    and p2: "attribute_value (JObj ?without) ''package_id'' = Inr JNull"
    and v2: "and_then (subscript_key (JObj ?without) ''service'') (\<lambda>s. subscript_key s ''Value'')
               = Inr (JStr ''fornax'')"
    by (simp_all add: attribute_value_def string_attribute_def and_then_def)
  show ?thesis
    using sns_start_launches_service [OF h1 h2 h3 h4 h5 h6 s1 p1 v1, of example_world]
      sns_start_launches_service [OF h1 h2 h3 h4 h5 h6 s2 p2 v2, of example_world]
    by blast
qed

text \<open>
  Claim C6. When the first record of the envelope has no true \<open>s3\<close> entry and a true
  \<open>Sns\<close> entry whose \<open>requested_status\<close> attribute is absent (its value is then
  \<open>None\<close>) or has a value other than \<open>START\<close>, the handler makes no \<open>run_task\<close> call
  and returns the JSON string of \<open>Nothing to do for SNS event: \<close> followed by the
  envelope's text; the phrase \<open>Nothing to do for SNS event\<close> stands in the result.
\<close>

theorem sns_other_status_nothing_to_do:
  assumes "first_record event = Inr r"
    and "py_get r ''s3'' JNull = Inr s3"
    and "\<not> truthy s3"
    and "py_get r ''Sns'' JNull = Inr sns"
    and "truthy sns"
    and "subscript_key sns ''MessageAttributes'' = Inr (JObj attributes)"
    and "attribute_value (JObj attributes) ''package_id'' = Inr package_id"
    and "attribute_value (JObj attributes) ''requested_status'' = Inr status"
    and "status \<noteq> JStr ''START''"
  shows "fst (lambda_handler w event) = []
       \<and> snd (lambda_handler w event) =
           Inr (json_dumps_str (''Nothing to do for SNS event: '' @ py_repr event))
       \<and> (\<exists>before after. snd (lambda_handler w event) =
             Inr (before @ ''Nothing to do for SNS event'' @ after))
       \<and> (map_of attributes ''requested_status'' = None \<longrightarrow> status = JNull)"
proof -
  have sns: "subscript_key r ''Sns'' = Inr sns"
    using assms(4,5) by (rule py_get_truthy_subscript)
  have out: "lambda_handler w event =
      ([], Inr (json_dumps_str (''Nothing to do for SNS event: '' @ py_repr event)))"
    unfolding lambda_handler_sns [OF assms(1,2,3,4,5)]
      handle_sns_event_idle [OF assms(1) sns assms(6,7,8,9)]
    by (simp add: and_then_Inr json_dumps_def)
  have "json_dumps_str (''Nothing to do for SNS event: '' @ py_repr event) =
      [CHR 0x22] @ ''Nothing to do for SNS event'' @
        ('': '' @ concat (map json_escape_char (py_repr event)) @ [CHR 0x22])"
    unfolding json_dumps_str_def map_append concat_append escape_sns_prefix by simp
  moreover have "map_of attributes ''requested_status'' = None \<longrightarrow> status = JNull"
    using assms(8) by (auto simp: attribute_value_absent)
  ultimately show ?thesis using out by (metis fst_conv snd_conv)
qed

theorem sns_other_status_witness:
  "fst (lambda_handler example_world
         (envelope [sns_record [(''requested_status'', string_attribute ''STOP''),
                                (''service'', string_attribute ''fornax''),
                                (''package_id'', string_attribute ''xyz'')]])) = []
   \<and> (\<exists>before after.
        snd (lambda_handler example_world
              (envelope [sns_record [(''requested_status'', string_attribute ''STOP''),
                                     (''service'', string_attribute ''fornax''),
                                     (''package_id'', string_attribute ''xyz'')]]))
          = Inr (before @ ''Nothing to do for SNS event'' @ after))
   \<and> fst (lambda_handler example_world
         (envelope [sns_record [(''service'', string_attribute ''fornax'')]])) = []
   \<and> (\<exists>before after.
        snd (lambda_handler example_world
              (envelope [sns_record [(''service'', string_attribute ''fornax'')]]))
          = Inr (before @ ''Nothing to do for SNS event'' @ after))"
proof -
  let ?stop = "[(''requested_status'', string_attribute ''STOP''),
                (''service'', string_attribute ''fornax''),
                (''package_id'', string_attribute ''xyz'')]"
  let ?none = "[(''service'', string_attribute ''fornax'')]"
  have h1: "first_record (envelope [sns_record a]) = Inr (sns_record a)" for a
    by (simp add: first_record_def envelope_def and_then_def)
  have h2: "py_get (sns_record a) ''s3'' JNull = Inr JNull" for a
    by (simp add: sns_record_def)
  have h3: "\<not> truthy JNull" by simp
  have h4: "py_get (sns_record a) ''Sns'' JNull =
      Inr (JObj [(''Subject'', JNull), (''MessageAttributes'', JObj a)])" for a
    by (simp add: sns_record_def)
  have h5: "truthy (JObj [(''Subject'', JNull), (''MessageAttributes'', JObj a)])" for a
    by simp
  have h6: "subscript_key (JObj [(''Subject'', JNull), (''MessageAttributes'', JObj a)])
      ''MessageAttributes'' = Inr (JObj a)" for a
    by simp
  have p1: "attribute_value (JObj ?stop) ''package_id'' = Inr (JStr ''xyz'')"
    and s1: "attribute_value (JObj ?stop) ''requested_status'' = Inr (JStr ''STOP'')"
    by (simp_all add: attribute_value_def string_attribute_def and_then_def)
  have p2: "attribute_value (JObj ?none) ''package_id'' = Inr JNull"
    and s2: "attribute_value (JObj ?none) ''requested_status'' = Inr JNull"
    by (simp_all add: attribute_value_def string_attribute_def and_then_def)
  have n1: "JStr ''STOP'' \<noteq> JStr ''START''" and n2: "JNull \<noteq> JStr ''START''"
    by simp_all
  show ?thesis
    using sns_other_status_nothing_to_do [OF h1 h2 h3 h4 h5 h6 p1 s1 n1, of example_world]
      sns_other_status_nothing_to_do [OF h1 h2 h3 h4 h5 h6 p2 s2 n2, of example_world]
    by blast
qed

text \<open>
  Claim C4, as stated: every envelope that matches neither shape makes the handler raise
  the unrecognised-event error. The test event of the Lambda console, a dict without
  \<open>Records\<close>, matches neither shape, and the handler raises the \<open>KeyError\<close> of
  \<open>event['Records']\<close> before it reaches its own \<open>raise\<close>.
\<close>

theorem unrecognized_event_counterexample:
  "first_record console_test_event = Inl KeyError
   \<and> lambda_handler example_world console_test_event = ([], Inl KeyError)
   \<and> snd (lambda_handler example_world console_test_event)
       \<noteq> Inl (Exception ''Unsure how to parse message'')"
  by (simp add: lambda_handler_def first_record_def console_test_event_def and_then_def Let_def)

text \<open>
  Claim C4, amended. When the first record of the envelope is a dict with neither a true
  \<open>s3\<close> entry nor a true \<open>Sns\<close> entry, the handler raises
  \<open>Exception('Unsure how to parse message')\<close>. When \<open>event['Records'][0]\<close> itself raises,
  the handler raises that \<open>KeyError\<close>, \<open>IndexError\<close> or \<open>TypeError\<close>; when the first
  record is not a dict, it raises \<open>AttributeError\<close>. In each case it makes no \<open>run_task\<close>
  call and returns nothing.
\<close>

theorem unrecognized_event_raises:
  "(first_record event = Inr (JObj r) \<and> \<not> truthy (dict_get r ''s3'') \<and> \<not> truthy (dict_get r ''Sns'')
      \<longrightarrow> lambda_handler w event = ([], Inl (Exception ''Unsure how to parse message'')))
   \<and> (first_record event = Inl e
      \<longrightarrow> lambda_handler w event = ([], Inl e) \<and> e \<in> {KeyError, IndexError, TypeError})
   \<and> (first_record event = Inr x \<and> (\<forall>kvs. x \<noteq> JObj kvs)
      \<longrightarrow> lambda_handler w event = ([], Inl AttributeError))"
proof (intro conjI impI)
  assume "first_record event = Inr (JObj r) \<and> \<not> truthy (dict_get r ''s3'') \<and> \<not> truthy (dict_get r ''Sns'')"
  then show "lambda_handler w event = ([], Inl (Exception ''Unsure how to parse message''))"
    by (simp add: lambda_handler_def and_then_Inr and_then_Inl Let_def dict_get_def)
next
  assume e: "first_record event = Inl e"
  then show "lambda_handler w event = ([], Inl e)"
    by (simp add: lambda_handler_def and_then_Inl Let_def)
  from e show "e \<in> {KeyError, IndexError, TypeError}"
    by (rule first_record_error)
next
  assume "first_record event = Inr x \<and> (\<forall>kvs. x \<noteq> JObj kvs)"
  then show "lambda_handler w event = ([], Inl AttributeError)"
    by (simp add: lambda_handler_def and_then_Inr and_then_Inl Let_def py_get_not_dict)
qed

theorem unrecognized_event_witness:
  "lambda_handler example_world
      (envelope [JObj [(''eventSource'', JStr ''aws:sqs''), (''body'', JStr ''hello'')]])
     = ([], Inl (Exception ''Unsure how to parse message''))
   \<and> lambda_handler example_world (envelope []) = ([], Inl IndexError)
   \<and> lambda_handler example_world (envelope [JStr ''ping'']) = ([], Inl AttributeError)"
proof -
  let ?r = "[(''eventSource'', JStr ''aws:sqs''), (''body'', JStr ''hello'')]"
  have a: "first_record (envelope [JObj ?r]) = Inr (JObj ?r)
      \<and> \<not> truthy (dict_get ?r ''s3'') \<and> \<not> truthy (dict_get ?r ''Sns'')"
    by (simp add: first_record_def envelope_def and_then_def dict_get_def)
  have b: "first_record (envelope []) = Inl IndexError"
    by (simp add: first_record_def envelope_def and_then_def)
  have c: "first_record (envelope [JStr ''ping'']) = Inr (JStr ''ping'')
      \<and> (\<forall>kvs. JStr ''ping'' \<noteq> JObj kvs)"
    by (simp add: first_record_def envelope_def and_then_def)
  show ?thesis
    using a b c
      unrecognized_event_raises [of "envelope [JObj ?r]" ?r example_world e x for e x]
      unrecognized_event_raises [of "envelope []" r example_world IndexError x for r x]
      unrecognized_event_raises [of "envelope [JStr ''ping'']" r example_world e "JStr ''ping''" for r e]
    by blast
qed

text \<open>
  Claim C8. When the store call succeeds and the \<open>Parameters\<close> of its response are a list
  of dicts, each with a string under \<open>Name\<close> (whatever else the dicts hold, in whatever
  order), \<open>get_config\<close> returns the dict that maps the last piece of every name split at
  \<open>/\<close> (the text after its last \<open>/\<close>) to what the entry holds under \<open>Value\<close>; of two
  entries with the same last piece the later one stands. So the keys are exactly those
  last pieces, and when they are distinct every entry is found under its key with its
  value. In particular the entries \<open>{path}/foo = bar\<close> and \<open>{path}/baz = buzz\<close> give
  exactly \<open>{foo: bar, baz: buzz}\<close>.
\<close>

theorem get_config_entries:
  assumes "ssm_get_parameters_by_path w (region_name (environ w)) path False True =
      Inr param_details"
    and "py_get param_details ''Parameters'' (JArr []) =
      Inr (JArr (map (\<lambda>(n, v, members). JObj members) entries))"
    and "\<forall>(n, v, members) \<in> set entries.
      map_of members ''Name'' = Some (JStr n) \<and> dict_get members ''Value'' = v"
  shows "get_config w path =
           map_of (rev (map (\<lambda>(n, v, members). (last (split_on (CHR ''/'') n), v)) entries))
       \<and> dom (get_config w path) = (\<lambda>(n, v, members). last (split_on (CHR ''/'') n)) ` set entries
       \<and> (distinct (map (\<lambda>(n, v, members). last (split_on (CHR ''/'') n)) entries) \<longrightarrow>
            (\<forall>(n, v, members) \<in> set entries.
               get_config w path (last (split_on (CHR ''/'') n)) = Some v))
       \<and> (\<forall>(n, v, members) \<in> set entries. \<forall>pre s.
            n = pre @ CHR ''/'' # s \<and> CHR ''/'' \<notin> set s \<longrightarrow> last (split_on (CHR ''/'') n) = s)
       \<and> (entries = [(path @ ''/foo'', JStr ''bar'', members1),
                     (path @ ''/baz'', JStr ''buzz'', members2)]
            \<longrightarrow> get_config w path = [''foo'' \<mapsto> JStr ''bar'', ''baz'' \<mapsto> JStr ''buzz''])"
proof -
  let ?kv = "\<lambda>(n, v, members). (last (split_on (CHR ''/'') n), v)"
  let ?k = "\<lambda>(n, v, members). last (split_on (CHR ''/'') n)"
  have eq: "get_config w path = map_of (rev (map ?kv entries))"
    using assms by (rule get_config_entries_eq)
  have fst_kv: "map fst (map ?kv entries) = map ?k entries"
    by (induction entries) auto
  have "dom (map_of (rev (map ?kv entries))) = fst ` set (map ?kv entries)"
    by (simp add: dom_map_of_conv_image_fst)
  also have "\<dots> = set (map fst (map ?kv entries))" by (simp add: image_image)
  also have "\<dots> = ?k ` set entries" unfolding fst_kv by simp
  finally have dom: "dom (get_config w path) = ?k ` set entries"
    by (simp add: eq)
  have dist: "\<forall>(n, v, members) \<in> set entries.
      get_config w path (last (split_on (CHR ''/'') n)) = Some v"
    if d: "distinct (map ?k entries)"
  proof -
    have "map fst (rev (map ?kv entries)) = rev (map ?k entries)"
      by (induction entries) auto
    then have "distinct (map fst (rev (map ?kv entries)))"
      using d by (simp only: distinct_rev)
    then have "map_of (rev (map ?kv entries)) k = Some v \<longleftrightarrow> (k, v) \<in> set (rev (map ?kv entries))"
      for k v by (rule map_of_eq_Some_iff)
    then show ?thesis
      unfolding eq by force
  qed
  have seg: "\<forall>(n, v, members) \<in> set entries. \<forall>pre s.
      n = pre @ CHR ''/'' # s \<and> CHR ''/'' \<notin> set s \<longrightarrow> last (split_on (CHR ''/'') n) = s"
    by (auto simp: last_split_on_suffix)
  have inst: "get_config w path = [''foo'' \<mapsto> JStr ''bar'', ''baz'' \<mapsto> JStr ''buzz'']"
    if "entries = [(path @ ''/foo'', JStr ''bar'', members1),
                   (path @ ''/baz'', JStr ''buzz'', members2)]"
  proof -
    have "last (split_on (CHR ''/'') (path @ ''/foo'')) = ''foo''"
      and "last (split_on (CHR ''/'') (path @ ''/baz'')) = ''baz''"
      by (simp_all add: last_split_on_suffix)
    then show ?thesis
      unfolding eq that by simp
  qed
  from eq dom dist seg inst show ?thesis by blast
qed

theorem get_config_entries_witness:
  "get_config test_config_world ''/dev/digital_ingest_trigger''
     = [''foo'' \<mapsto> JStr ''bar'', ''baz'' \<mapsto> JStr ''buzz'']
   \<and> dom (get_config test_config_world ''/dev/digital_ingest_trigger'') = {''foo'', ''baz''}
   \<and> get_config test_config_world ''/dev/digital_ingest_trigger'' ''foo'' = Some (JStr ''bar'')"
proof -
  let ?p = "''/dev/digital_ingest_trigger''"
  let ?foo = "[(''Name'', JStr (?p @ ''/foo'')), (''Type'', JStr ''SecureString''),
               (''Value'', JStr ''bar''), (''Version'', JInt 1)]"
  let ?baz = "[(''Name'', JStr (?p @ ''/baz'')), (''Type'', JStr ''SecureString''),
               (''Value'', JStr ''buzz''), (''Version'', JInt 1)]"
  let ?es = "[(?p @ ''/foo'', JStr ''bar'', ?foo), (?p @ ''/baz'', JStr ''buzz'', ?baz)]"
  let ?details = "JObj [(''Parameters'', JArr [JObj ?foo, JObj ?baz]),
                        (''ResponseMetadata'', JObj [(''HTTPStatusCode'', JInt 200)])]"
  have h1: "ssm_get_parameters_by_path test_config_world (region_name (environ test_config_world))
      ?p False True = Inr ?details"
    by (simp add: test_config_world_def store_entry_def)
  have h2: "py_get ?details ''Parameters'' (JArr []) =
      Inr (JArr (map (\<lambda>(n, v, members). JObj members) ?es))"
    by simp
  have h3: "\<forall>(n, v, members) \<in> set ?es.
      map_of members ''Name'' = Some (JStr n) \<and> dict_get members ''Value'' = v"
    by (simp add: dict_get_def)
  have foo: "last (split_on (CHR ''/'') (?p @ ''/foo'')) = ''foo''"
    and baz: "last (split_on (CHR ''/'') (?p @ ''/baz'')) = ''baz''"
    by (simp_all add: last_split_on_suffix del: append.simps)
  have d: "distinct (map (\<lambda>(n, v, members). last (split_on (CHR ''/'') n)) ?es)"
    by (simp add: foo baz del: append.simps)
  have i: "(\<lambda>(n, v, members). last (split_on (CHR ''/'') n)) ` set ?es = {''foo'', ''baz''}"
    by (simp add: foo baz del: append.simps)
  have m: "(?p @ ''/foo'', JStr ''bar'', ?foo) \<in> set ?es"
    by simp
  from get_config_entries [OF h1 h2 h3, of ?foo ?baz]
  show ?thesis
    using d i m foo by (auto simp del: append.simps split_on.simps)
qed

text \<open>
  Claim C9, as stated: two envelopes with the same first record get the same launches
  and the same result. An envelope with one \<open>ObjectRemoved:Delete\<close> record and the same
  envelope with a second record behind it have the same first record, and neither
  launches anything; but the message the handler returns quotes the whole envelope, so
  the two results differ.
\<close>

theorem later_records_counterexample:
  "first_record (envelope [s3_record ''ObjectRemoved:Delete'' ''abc123.tif'']) =
     first_record (envelope [s3_record ''ObjectRemoved:Delete'' ''abc123.tif'',
                             s3_record ''ObjectCreated:Put'' ''xyz.tif''])
   \<and> snd (lambda_handler example_world (envelope [s3_record ''ObjectRemoved:Delete'' ''abc123.tif'']))
     \<noteq> snd (lambda_handler example_world
              (envelope [s3_record ''ObjectRemoved:Delete'' ''abc123.tif'',
                         s3_record ''ObjectCreated:Put'' ''xyz.tif'']))"
proof -
  let ?r = "s3_record ''ObjectRemoved:Delete'' ''abc123.tif''"
  let ?r' = "s3_record ''ObjectCreated:Put'' ''xyz.tif''"
  let ?s3 = "JObj [(''bucket'', JObj [(''name'', JStr ''ingest'')]),
                   (''object'', JObj [(''key'', JStr ''abc123.tif'')])]"
  have h1: "first_record (envelope (?r # rs)) = Inr ?r" for rs
    by (simp add: first_record_def envelope_def and_then_def)
  have h2: "py_get ?r ''s3'' JNull = Inr ?s3"
    by (simp add: s3_record_def)
  have h3: "truthy ?s3" by simp
  have h4: "subscript_key ?r ''eventName'' = Inr (JStr ''ObjectRemoved:Delete'')"
    by (simp add: s3_record_def)
  have h5: "JStr ''ObjectRemoved:Delete'' \<notin>
      {JStr ''ObjectCreated:Put'', JStr ''ObjectCreated:CompleteMultipartUpload''}"
    by simp
  have len: "length (json_dumps_str (p @ py_repr (envelope [?r]))) \<noteq>
      length (json_dumps_str (p @ py_repr (envelope [?r, ?r'])))" for p
    by (simp add: json_dumps_str_def envelope_def s3_record_def str_repr_def repr_char_def
        json_escape_char_def Let_def)
  then have "json_dumps_str (p @ py_repr (envelope [?r])) \<noteq>
      json_dumps_str (p @ py_repr (envelope [?r, ?r']))" for p
    by metis
  from this [of "''Nothing to do for S3 event: ''"] show ?thesis
    unfolding lambda_handler_s3_other [OF h1 h2 h3 h4 h5] h1 snd_conv
    by blast
qed

text \<open>
  Claim C9, amended. Two envelopes for which \<open>event['Records'][0]\<close> is the same make the
  handler issue the same \<open>run_task\<close> calls. Its outcome is the same too (the same
  result, or the same exception) whenever a launch is made or an exception is raised;
  when nothing is launched, each result is the JSON string of the same
  \<open>Nothing to do for ... event: \<close> prefix followed by the text of its own whole envelope,
  later records included.
\<close>

theorem first_record_decides_launch:
  assumes "first_record event1 = first_record event2"
  shows "fst (lambda_handler w event1) = fst (lambda_handler w event2)
       \<and> (snd (lambda_handler w event1) = snd (lambda_handler w event2)
          \<or> (fst (lambda_handler w event1) = []
             \<and> (\<exists>prefix. prefix \<in> {''Nothing to do for S3 event: '', ''Nothing to do for SNS event: ''}
                  \<and> snd (lambda_handler w event1) = Inr (json_dumps_str (prefix @ py_repr event1))
                  \<and> snd (lambda_handler w event2) = Inr (json_dumps_str (prefix @ py_repr event2)))))"
proof -
  let ?ecs = "ecs_run_task w (region_name (environ w))"
  let ?config = "get_config w (full_config_path (environ w))"
  let ?done = "\<lambda>out. (fst out,
      and_then (snd out) (\<lambda>response. Inr (json_dumps (dumps_default_str w) response)))"
  have h: "lambda_handler w event =
      ?done (case and_then (first_record event) (\<lambda>r. py_get r ''s3'' JNull) of
           Inl e \<Rightarrow> ([], Inl e)
         | Inr s3 \<Rightarrow>
             if truthy s3 then handle_s3_event ?ecs ?config event
             else (case and_then (first_record event) (\<lambda>r. py_get r ''Sns'' JNull) of
                     Inl e \<Rightarrow> ([], Inl e)
                   | Inr sns \<Rightarrow>
                       if truthy sns then handle_sns_event ?ecs ?config event
                       else ([], Inl (Exception ''Unsure how to parse message''))))" for event
    by (simp add: lambda_handler_def Let_def)
  show ?thesis
  proof (cases "and_then (first_record event2) (\<lambda>r. py_get r ''s3'' JNull)")
    case (Inl e)
    then show ?thesis by (simp add: h assms)
  next
    case s3: (Inr s3)
    show ?thesis
    proof (cases "truthy s3")
      case True
      have e1: "lambda_handler w event1 = ?done (handle_s3_event ?ecs ?config event1)"
        and e2: "lambda_handler w event2 = ?done (handle_s3_event ?ecs ?config event2)"
        using s3 True by (simp_all add: h assms)
      from handle_s3_event_same_record [OF assms, of ?ecs ?config] show ?thesis
      proof
        assume "handle_s3_event ?ecs ?config event1 = handle_s3_event ?ecs ?config event2"
        then show ?thesis by (simp add: e1 e2)
      next
        assume "handle_s3_event ?ecs ?config event1 =
              ([], Inr (Text (''Nothing to do for S3 event: '' @ py_repr event1)))
          \<and> handle_s3_event ?ecs ?config event2 =
              ([], Inr (Text (''Nothing to do for S3 event: '' @ py_repr event2)))"
        then have "lambda_handler w event1 =
              ([], Inr (json_dumps_str (''Nothing to do for S3 event: '' @ py_repr event1)))"
          and "lambda_handler w event2 =
              ([], Inr (json_dumps_str (''Nothing to do for S3 event: '' @ py_repr event2)))"
          by (simp_all add: e1 e2 and_then_Inr json_dumps_def)
        then show ?thesis by (simp only: fst_conv snd_conv) blast
      qed
    next
      case False
      show ?thesis
      proof (cases "and_then (first_record event2) (\<lambda>r. py_get r ''Sns'' JNull)")
        case (Inl e)
        with s3 False show ?thesis by (simp add: h assms)
      next
        case sns: (Inr sns)
        show ?thesis
        proof (cases "truthy sns")
          case True
          have e1: "lambda_handler w event1 = ?done (handle_sns_event ?ecs ?config event1)"
            and e2: "lambda_handler w event2 = ?done (handle_sns_event ?ecs ?config event2)"
            using s3 False sns True by (simp_all add: h assms)
          from handle_sns_event_same_record [OF assms, of ?ecs ?config] show ?thesis
          proof
            assume "handle_sns_event ?ecs ?config event1 = handle_sns_event ?ecs ?config event2"
            then show ?thesis by (simp add: e1 e2)
          next
            assume "handle_sns_event ?ecs ?config event1 =
                  ([], Inr (Text (''Nothing to do for SNS event: '' @ py_repr event1)))
              \<and> handle_sns_event ?ecs ?config event2 =
                  ([], Inr (Text (''Nothing to do for SNS event: '' @ py_repr event2)))"
            then have "lambda_handler w event1 =
                  ([], Inr (json_dumps_str (''Nothing to do for SNS event: '' @ py_repr event1)))"
              and "lambda_handler w event2 =
                  ([], Inr (json_dumps_str (''Nothing to do for SNS event: '' @ py_repr event2)))"
              by (simp_all add: e1 e2 and_then_Inr json_dumps_def)
            then show ?thesis by (simp only: fst_conv snd_conv) blast
          qed
        next
          case nsns: False
          with s3 False sns show ?thesis by (simp add: h assms)
        qed
      qed
    qed
  qed
qed

theorem first_record_decides_launch_witness:
  "fst (lambda_handler example_world (envelope [s3_record ''ObjectCreated:Put'' ''abc123.tif''])) =
     fst (lambda_handler example_world
           (envelope [s3_record ''ObjectCreated:Put'' ''abc123.tif'',
                      s3_record ''ObjectRemoved:Delete'' ''xyz.tif'']))"
proof -
  have "first_record (envelope [s3_record ''ObjectCreated:Put'' ''abc123.tif'']) =
      first_record (envelope [s3_record ''ObjectCreated:Put'' ''abc123.tif'',
                              s3_record ''ObjectRemoved:Delete'' ''xyz.tif''])"
    by (simp add: first_record_def envelope_def and_then_def)
  from first_record_decides_launch [OF this, of example_world] show ?thesis
    by blast
qed

text \<open>
  Claim C10. The shape of the envelope is decided by the truth of the \<open>s3\<close> entry of the
  first record, then of its \<open>Sns\<close> entry. When the \<open>s3\<close> entry is true the handler
  behaves as the S3 branch, whatever the record holds under \<open>Sns\<close>: a record that differs
  only under \<open>Sns\<close> gets the same launches and, up to the envelope text quoted in the
  \<open>Nothing to do for S3 event\<close> message, the same result. When the \<open>s3\<close> entry is absent
  or false (an empty dict, say) the S3 branch is not taken: the handler behaves as the
  SNS branch if the \<open>Sns\<close> entry is true and raises the unrecognised-event exception
  otherwise.
\<close>

theorem s3_entry_takes_precedence:
  assumes "first_record event = Inr (JObj r)"
  shows "(truthy (dict_get r ''s3'') \<longrightarrow>
            lambda_handler w event =
              (fst (handle_s3_event (ecs_run_task w (region_name (environ w)))
                      (get_config w (full_config_path (environ w))) event),
               and_then (snd (handle_s3_event (ecs_run_task w (region_name (environ w)))
                      (get_config w (full_config_path (environ w))) event))
                 (\<lambda>response. Inr (json_dumps (dumps_default_str w) response))))
       \<and> (truthy (dict_get r ''s3'') \<and> first_record event' = Inr (JObj r')
            \<and> (\<forall>k. k \<noteq> ''Sns'' \<longrightarrow> map_of r' k = map_of r k) \<longrightarrow>
            fst (lambda_handler w event') = fst (lambda_handler w event)
            \<and> (snd (lambda_handler w event') = snd (lambda_handler w event)
               \<or> (snd (lambda_handler w event') =
                     Inr (json_dumps_str (''Nothing to do for S3 event: '' @ py_repr event'))
                  \<and> snd (lambda_handler w event) =
                     Inr (json_dumps_str (''Nothing to do for S3 event: '' @ py_repr event)))))
       \<and> (\<not> truthy (dict_get r ''s3'') \<longrightarrow>
            lambda_handler w event =
              (if truthy (dict_get r ''Sns'')
               then (fst (handle_sns_event (ecs_run_task w (region_name (environ w)))
                            (get_config w (full_config_path (environ w))) event),
                     and_then (snd (handle_sns_event (ecs_run_task w (region_name (environ w)))
                            (get_config w (full_config_path (environ w))) event))
                       (\<lambda>response. Inr (json_dumps (dumps_default_str w) response)))
               else ([], Inl (Exception ''Unsure how to parse message''))))"
proof (intro conjI impI)
  let ?ecs = "ecs_run_task w (region_name (environ w))"
  let ?config = "get_config w (full_config_path (environ w))"
  let ?done = "\<lambda>out. (fst out,
      and_then (snd out) (\<lambda>response. Inr (json_dumps (dumps_default_str w) response)))"
  have s3: "lambda_handler w e = ?done (handle_s3_event ?ecs ?config e)"
    if "first_record e = Inr (JObj kvs)" and "truthy (dict_get kvs ''s3'')" for e kvs
    using that(2) by (intro lambda_handler_s3 [OF that(1)]) (simp_all add: dict_get_def)
  {
    assume "truthy (dict_get r ''s3'')"
    then show "lambda_handler w event = ?done (handle_s3_event ?ecs ?config event)"
      by (rule s3 [OF assms])
  next
    assume a: "truthy (dict_get r ''s3'') \<and> first_record event' = Inr (JObj r')
        \<and> (\<forall>k. k \<noteq> ''Sns'' \<longrightarrow> map_of r' k = map_of r k)"
    then have same: "map_of r' ''s3'' = map_of r ''s3''"
      "map_of r' ''eventName'' = map_of r ''eventName''"
      by simp_all
    have e: "lambda_handler w event = ?done (handle_s3_event ?ecs ?config event)"
      using a by (intro s3 [OF assms]) simp
    have e': "lambda_handler w event' = ?done (handle_s3_event ?ecs ?config event')"
      using a same by (intro s3 [of event' r']) (simp_all add: dict_get_def)
    have "handle_s3_event ?ecs ?config event' = handle_s3_event ?ecs ?config event
       \<or> (handle_s3_event ?ecs ?config event' =
              ([], Inr (Text (''Nothing to do for S3 event: '' @ py_repr event')))
          \<and> handle_s3_event ?ecs ?config event =
              ([], Inr (Text (''Nothing to do for S3 event: '' @ py_repr event))))"
      using a by (intro handle_s3_event_same_entries [of event' "JObj r'" event "JObj r"])
        (simp_all add: assms same)
    then show "fst (lambda_handler w event') = fst (lambda_handler w event)"
      and "snd (lambda_handler w event') = snd (lambda_handler w event)
         \<or> (snd (lambda_handler w event') =
               Inr (json_dumps_str (''Nothing to do for S3 event: '' @ py_repr event'))
            \<and> snd (lambda_handler w event) =
               Inr (json_dumps_str (''Nothing to do for S3 event: '' @ py_repr event)))"
      unfolding e e' by (auto simp: and_then_Inr json_dumps_def)
  next
    assume "\<not> truthy (dict_get r ''s3'')"
    then show "lambda_handler w event =
        (if truthy (dict_get r ''Sns'') then ?done (handle_sns_event ?ecs ?config event)
         else ([], Inl (Exception ''Unsure how to parse message'')))"
      by (simp add: lambda_handler_def assms and_then_Inr and_then_Inl Let_def dict_get_def)
  }
qed

theorem s3_entry_precedence_witness:
  "(\<exists>kwargs.
      fst (lambda_handler example_world
            (envelope [s3_and_sns_record (JObj [(''object'', JObj [(''key'', JStr ''abc123.tif'')])])]))
        = [kwargs]
      \<and> taskDefinition kwargs = JStr ''ursa_major'')
   \<and> fst (lambda_handler example_world
            (envelope [JObj [(''eventName'', JStr ''ObjectCreated:Put''),
                             (''s3'', JObj [(''object'', JObj [(''key'', JStr ''abc123.tif'')])])]]))
     = fst (lambda_handler example_world
            (envelope [s3_and_sns_record (JObj [(''object'', JObj [(''key'', JStr ''abc123.tif'')])])]))
   \<and> (\<exists>kwargs.
      fst (lambda_handler example_world (envelope [s3_and_sns_record (JObj [])])) = [kwargs]
      \<and> taskDefinition kwargs = JStr ''fornax'')"
proof -
  let ?ecs = "ecs_run_task example_world (region_name (environ example_world))"
  let ?config = "get_config example_world (full_config_path (environ example_world))"
  let ?s3 = "JObj [(''object'', JObj [(''key'', JStr ''abc123.tif'')])]"
  let ?attributes = "JObj [(''requested_status'', string_attribute ''START''),
                          (''service'', string_attribute ''fornax'')]"
  let ?sns = "JObj [(''MessageAttributes'', ?attributes)]"
  let ?r = "\<lambda>s3. [(''eventName'', JStr ''ObjectCreated:Put''), (''s3'', s3), (''Sns'', ?sns)]"
  let ?r' = "[(''eventName'', JStr ''ObjectCreated:Put''), (''s3'', ?s3)]"
  have rec: "first_record (envelope [s3_and_sns_record s3]) = Inr (JObj (?r s3))" for s3
    by (simp add: first_record_def envelope_def s3_and_sns_record_def and_then_def)
  have rec': "first_record (envelope [JObj ?r']) = Inr (JObj ?r')"
    by (simp add: first_record_def envelope_def and_then_def)
  have t: "truthy (dict_get (?r ?s3) ''s3'')"
    and f: "\<not> truthy (dict_get (?r (JObj [])) ''s3'')"
    and sns: "truthy (dict_get (?r (JObj [])) ''Sns'')"
    by (simp_all add: dict_get_def)
  have same: "\<forall>k. k \<noteq> ''Sns'' \<longrightarrow> map_of ?r' k = map_of (?r ?s3) k"
    by simp
  note both = s3_entry_takes_precedence
    [of "envelope [s3_and_sns_record ?s3]" "?r ?s3" example_world "envelope [JObj ?r']" ?r',
     OF rec]
  note empty = s3_entry_takes_precedence
    [of "envelope [s3_and_sns_record (JObj [])]" "?r (JObj [])" example_world, OF rec]
  have a: "lambda_handler example_world (envelope [s3_and_sns_record ?s3]) =
      (fst (handle_s3_event ?ecs ?config (envelope [s3_and_sns_record ?s3])),
       and_then (snd (handle_s3_event ?ecs ?config (envelope [s3_and_sns_record ?s3])))
         (\<lambda>response. Inr (json_dumps (dumps_default_str example_world) response)))"
    using both t by blast
  have b: "fst (lambda_handler example_world (envelope [JObj ?r'])) =
      fst (lambda_handler example_world (envelope [s3_and_sns_record ?s3]))"
    using both t rec' same by blast
  have c: "lambda_handler example_world (envelope [s3_and_sns_record (JObj [])]) =
      (fst (handle_sns_event ?ecs ?config (envelope [s3_and_sns_record (JObj [])])),
       and_then (snd (handle_sns_event ?ecs ?config (envelope [s3_and_sns_record (JObj [])])))
         (\<lambda>response. Inr (json_dumps (dumps_default_str example_world) response)))"
    using empty f sns by simp
  have created: "handle_s3_event ?ecs ?config (envelope [s3_and_sns_record ?s3]) =
      as_response (run_task ?ecs ?config (JStr ''ursa_major'')
        (JArr [JObj [(''name'', JStr ''PACKAGE_ID''),
                     (''value'', JStr (takeWhile (\<lambda>c. c \<noteq> CHR ''.'') ''abc123.tif''))]]))"
    by (rule handle_s3_event_created [OF rec, of _ ?s3 "''ObjectCreated:Put''"])
       (simp_all add: and_then_def)
  have started: "handle_sns_event ?ecs ?config (envelope [s3_and_sns_record (JObj [])]) =
      as_response (run_task ?ecs ?config (JStr ''fornax'')
        (JArr [JObj [(''name'', JStr ''PACKAGE_ID''), (''value'', JNull)]]))"
    by (rule handle_sns_event_start [OF rec, of _ ?sns ?attributes])
       (simp_all add: attribute_value_def string_attribute_def and_then_def)
  have "\<exists>kwargs. fst (lambda_handler example_world (envelope [s3_and_sns_record ?s3])) = [kwargs]
      \<and> taskDefinition kwargs = JStr ''ursa_major''"
    unfolding a created as_response_run_task by (simp add: run_task_def Let_def)
  moreover have "\<exists>kwargs.
      fst (lambda_handler example_world (envelope [s3_and_sns_record (JObj [])])) = [kwargs]
      \<and> taskDefinition kwargs = JStr ''fornax''"
    unfolding c started as_response_run_task by (simp add: run_task_def Let_def)
  ultimately show ?thesis using b by blast
qed

end
